theory Spec2Isabelle
  imports Complex_Main
begin

section \<open>Numbers\<close>

text \<open>
  The C++ type \<open>double\<close> is modelled by \<^typ>\<open>real\<close>: arithmetic is exact.  The
  rounding, overflow and underflow of binary64 are not modelled, so a statement below is
  a statement about the formulas of the source in exact arithmetic; it carries over to
  the compiled program where the computation is exact (as at the concrete inputs
  evaluated below) and otherwise up to rounding.

  A division by zero is modelled: in IEEE arithmetic it yields an infinity or a NaN, and
  HOL's \<open>x / 0 = 0\<close> would hide that.  Every division of the source is the checked
  division \<open>fdiv\<close>: \<open>None\<close> records that a division by zero was executed on the way to
  this value.  The infinity or NaN that the program then carries is not followed any
  further: a value computed from \<open>None\<close> is \<open>None\<close>.  \<open>Some\<close> says that no divisor
  was zero; it does not say that the binary64 result is finite.
\<close>

definition fdiv :: "real \<Rightarrow> real \<Rightarrow> real option" where
  "fdiv a b = (if b = 0 then None else Some (a / b))"

text \<open>
  Modelled from the spec: \<open>constant.hpp\<close> is not among the sources.  \<open>PI\<close> is the
  circle constant and \<open>INV_PI\<close> its reciprocal.
\<close>

definition PI :: real where
  "PI = pi"

definition INV_PI :: real where
  "INV_PI = 1 / pi"

section \<open>Vectors and spectra\<close>

text \<open>
  Modelled from the spec: \<open>vector.hpp\<close> and \<open>point.hpp\<close> are not among the sources.
  A \<open>Vector\<close> has the three \<open>double\<close> fields that \<open>bsdf.hpp\<close> reads (the source
  writes them with a trailing underscore, which is not a name here: they are \<open>x_c\<close>,
  \<open>y_c\<close>, \<open>z_c\<close>); \<open>Spectrum\<close> is the same value type (a \<open>Spectrum\<close> is
  initialised from \<open>Parameter::FindVector\<close>), its default constructor gives the zero
  spectrum, and the operators are componentwise.  \<open>Normalize\<close> scales a vector to
  unit length by dividing by its length, so the zero vector has no finite normal form.
\<close>

record Vector =
  x_c :: real
  y_c :: real
  z_c :: real

type_synonym Spectrum = Vector

definition Vec :: "real \<Rightarrow> real \<Rightarrow> real \<Rightarrow> Vector" where
  "Vec a b c = \<lparr>x_c = a, y_c = b, z_c = c\<rparr>"

definition Spectrum0 :: Spectrum where
  "Spectrum0 = Vec 0 0 0"

definition vadd :: "Vector \<Rightarrow> Vector \<Rightarrow> Vector" where
  "vadd u v = Vec (x_c u + x_c v) (y_c u + y_c v) (z_c u + z_c v)"

definition vmul :: "Vector \<Rightarrow> real \<Rightarrow> Vector" where
  "vmul v k = Vec (x_c v * k) (y_c v * k) (z_c v * k)"

definition vdiv :: "Vector \<Rightarrow> real \<Rightarrow> Vector option" where
  "vdiv v k = (if k = 0 then None else Some (Vec (x_c v / k) (y_c v / k) (z_c v / k)))"

definition Length :: "Vector \<Rightarrow> real" where
  "Length v = sqrt (x_c v * x_c v + y_c v * y_c v + z_c v * z_c v)"

definition Normalize :: "Vector \<Rightarrow> Vector option" where
  "Normalize v = vdiv v (Length v)"

section \<open>Frame utilities and the Fresnel term (\<open>swan/bsdf.hpp\<close>)\<close>

definition CosTheta :: "Vector \<Rightarrow> real" where
  "CosTheta wi = z_c wi"

definition AbsCosTheta :: "Vector \<Rightarrow> real" where
  "AbsCosTheta wi = \<bar>z_c wi\<bar>"

text \<open>
  \<open>FresnelDielectric\<close>, line by line.  The swap of the two indices and the negation
  of the cosine are the first \<open>let\<close>; the early return is the \<open>if\<close>.
\<close>

definition FresnelDielectric :: "real \<Rightarrow> real \<Rightarrow> real \<Rightarrow> real option" where
  "FresnelDielectric cosi0 etai0 etat0 =
     (let (cosi, etai, etat) =
            (if cosi0 < 0 then (- cosi0, etat0, etai0) else (cosi0, etai0, etat0));
          sini = sqrt (max 0 (1 - cosi * cosi))
      in case fdiv etai etat of
           None \<Rightarrow> None
         | Some q \<Rightarrow>
             (let sint = q * sini
              in if sint \<ge> 1 then Some 1
                 else
                   (let cost = sqrt (max 0 (1 - sint * sint));
                        term1 = etai * cost;
                        term2 = etat * cosi;
                        term3 = etai * cosi;
                        term4 = etat * cost
                    in case fdiv (term2 - term1) (term2 + term1) of
                         None \<Rightarrow> None
                       | Some parl \<Rightarrow>
                           (case fdiv (term3 - term4) (term3 + term4) of
                              None \<Rightarrow> None
                            | Some perp \<Rightarrow> Some ((parl * parl + perp * perp) * 0.5)))))"

text \<open>
  The value of the local variable \<open>sint\<close> of \<open>FresnelDielectric\<close> when the test
  \<open>sint >= 1\<close> is reached (the lines before it, unchanged).
\<close>

definition FresnelDielectric_sint :: "real \<Rightarrow> real \<Rightarrow> real \<Rightarrow> real option" where
  "FresnelDielectric_sint cosi0 etai0 etat0 =
     (let (cosi, etai, etat) =
            (if cosi0 < 0 then (- cosi0, etat0, etai0) else (cosi0, etai0, etat0));
          sini = sqrt (max 0 (1 - cosi * cosi))
      in case fdiv etai etat of
           None \<Rightarrow> None
         | Some q \<Rightarrow> Some (q * sini))"

section \<open>The random source and the hemisphere sampler\<close>

text \<open>
  The process-wide \<open>generator\<close> is state: it is passed in and returned.  The engine
  itself belongs to the standard library, so a generator is represented by the sequence
  of numbers that \<open>distribution(generator)\<close> will produce from now on; the library
  draws them from \<open>[0, 1)\<close>.
\<close>

type_synonym generator = "nat \<Rightarrow> real"

definition distribution :: "generator \<Rightarrow> real \<times> generator" where
  "distribution g = (g 0, \<lambda>n. g (Suc n))"

definition CosineWeightedHemisphere :: "generator \<Rightarrow> Vector option \<times> generator" where
  "CosineWeightedHemisphere g =
     (let (u1, g1) = distribution g;
          (u2, g2) = distribution g1;
          theta = arcsin (sqrt u1);
          phi = 2 * PI * u2;
          sini = sin theta;
          cosi = cos theta;
          xs = sini * cos phi;
          ys = sini * sin phi;
          zs = cosi
      in (Normalize (Vec xs ys zs), g2))"

section \<open>The scattering models\<close>

text \<open>
  \<open>SampleF\<close> returns a spectrum and writes the two reference parameters \<open>wi\<close> and
  \<open>pdf\<close>; the three outputs are the fields of a record, each with its own record of
  a division by zero.
\<close>

record Sample =
  ret :: "Spectrum option"
  wi_out :: "Vector option"
  pdf_out :: "real option"

subsection \<open>DiffuseBSDF\<close>

definition DiffuseBSDF_F :: "Spectrum \<Rightarrow> Vector \<Rightarrow> Vector \<Rightarrow> Spectrum" where
  "DiffuseBSDF_F r wo wi = vmul r INV_PI"

definition DiffuseBSDF_SampleF :: "Spectrum \<Rightarrow> Vector \<Rightarrow> generator \<Rightarrow> Sample \<times> generator" where
  "DiffuseBSDF_SampleF r wo g =
     (let (wi, g') = CosineWeightedHemisphere g;
          pdf = map_option (\<lambda>w. CosTheta w * INV_PI) wi
      in (\<lparr>ret = map_option (DiffuseBSDF_F r wo) wi, wi_out = wi, pdf_out = pdf\<rparr>, g'))"

subsection \<open>ReflectBSDF\<close>

definition ReflectBSDF_F :: "Spectrum \<Rightarrow> Vector \<Rightarrow> Vector \<Rightarrow> Spectrum" where
  "ReflectBSDF_F r wo wi = Spectrum0"

definition ReflectBSDF_SampleF :: "Spectrum \<Rightarrow> Vector \<Rightarrow> Sample" where
  "ReflectBSDF_SampleF r wo =
     (let wi = Vec (- x_c wo) (- y_c wo) (z_c wo);
          pdf = 1
      in \<lparr>ret = map_option (vmul r) (fdiv 1 (CosTheta wi)),
          wi_out = Some wi, pdf_out = Some pdf\<rparr>)"

subsection \<open>RefractBSDF\<close>

definition RefractBSDF_F :: "Spectrum \<Rightarrow> real \<Rightarrow> real \<Rightarrow> Vector \<Rightarrow> Vector \<Rightarrow> Spectrum" where
  "RefractBSDF_F r etai_m etat_m wo wi = Spectrum0"

text \<open>
  The members \<open>etai_\<close> and \<open>etat_\<close> are the parameters \<open>etai_m\<close> and \<open>etat_m\<close>.
  The local \<open>sini\<close> and \<open>sint\<close> hold squared sines, as in the source.
\<close>

definition RefractBSDF_SampleF :: "Spectrum \<Rightarrow> real \<Rightarrow> real \<Rightarrow> Vector \<Rightarrow> Sample" where
  "RefractBSDF_SampleF r etai_m etat_m wo =
     (let entering = CosTheta wo < 0;
          etai = (if entering then etai_m else etat_m);
          etat = (if entering then etat_m else etai_m)
      in case fdiv etai etat of
           None \<Rightarrow> \<lparr>ret = None, wi_out = None, pdf_out = None\<rparr>
         | Some eta \<Rightarrow>
             (let cosi = AbsCosTheta wo;
                  sini = max 0 (1 - cosi * cosi);
                  sint = eta * eta * sini
              in if sint < 1 then
                   (let cost = sqrt (1 - sint);
                        term1 = etai * cost;
                        term2 = etat * cosi;
                        term3 = etai * cosi;
                        term4 = etat * cost;
                        re = (case fdiv (term2 - term1) (term2 + term1) of
                                None \<Rightarrow> None
                              | Some parl \<Rightarrow>
                                  (case fdiv (term3 - term4) (term3 + term4) of
                                     None \<Rightarrow> None
                                   | Some perp \<Rightarrow> Some ((parl * parl + perp * perp) * 0.5)));
                        wi = Normalize (vadd (vmul wo eta)
                               (vmul (Vec 0 0 1)
                                  ((eta * cosi - cost) * (if entering then - 1 else 1))));
                        pdf = map_option (\<lambda>re. 1 - re) re
                    in \<lparr>ret = (case re of
                                 None \<Rightarrow> None
                               | Some re \<Rightarrow>
                                   (case wi of
                                      None \<Rightarrow> None
                                    | Some w \<Rightarrow> vdiv (vmul r (1 - re)) (AbsCosTheta w))),
                        wi_out = wi, pdf_out = pdf\<rparr>)
                 else
                   (let re = 1;
                        wi = Vec (- x_c wo) (- y_c wo) (z_c wo)
                    in \<lparr>ret = vdiv (vmul r re) (AbsCosTheta wi),
                        wi_out = Some wi, pdf_out = Some re\<rparr>)))"

text \<open>
  Three prefixes of \<open>RefractBSDF::SampleF\<close>, for the statements that speak about its
  local variables: the pair \<open>(etai, etat)\<close> chosen by \<open>entering\<close>, the squared sine
  \<open>sint\<close> that the branch tests, and the reflectance \<open>re\<close> that the branch
  \<open>sint < 1\<close> computes.
\<close>

definition RefractBSDF_etas :: "real \<Rightarrow> real \<Rightarrow> Vector \<Rightarrow> real \<times> real" where
  "RefractBSDF_etas etai_m etat_m wo =
     (let entering = CosTheta wo < 0;
          etai = (if entering then etai_m else etat_m);
          etat = (if entering then etat_m else etai_m)
      in (etai, etat))"

definition RefractBSDF_sint :: "real \<Rightarrow> real \<Rightarrow> Vector \<Rightarrow> real option" where
  "RefractBSDF_sint etai_m etat_m wo =
     (let (etai, etat) = RefractBSDF_etas etai_m etat_m wo
      in case fdiv etai etat of
           None \<Rightarrow> None
         | Some eta \<Rightarrow>
             (let cosi = AbsCosTheta wo;
                  sini = max 0 (1 - cosi * cosi)
              in Some (eta * eta * sini)))"

definition RefractBSDF_re :: "real \<Rightarrow> real \<Rightarrow> Vector \<Rightarrow> real option" where
  "RefractBSDF_re etai_m etat_m wo =
     (let (etai, etat) = RefractBSDF_etas etai_m etat_m wo
      in case RefractBSDF_sint etai_m etat_m wo of
           None \<Rightarrow> None
         | Some sint \<Rightarrow>
             (let cosi = AbsCosTheta wo;
                  cost = sqrt (1 - sint);
                  term1 = etai * cost;
                  term2 = etat * cosi;
                  term3 = etai * cosi;
                  term4 = etat * cost
              in case fdiv (term2 - term1) (term2 + term1) of
                   None \<Rightarrow> None
                 | Some parl \<Rightarrow>
                     (case fdiv (term3 - term4) (term3 + term4) of
                        None \<Rightarrow> None
                      | Some perp \<Rightarrow> Some ((parl * parl + perp * perp) * 0.5))))"

subsection \<open>The class hierarchy\<close>

text \<open>
  The abstract class \<open>BSDF\<close> with its three subclasses is a datatype; a virtual call
  is a function defined by cases on it.  \<open>IsDelta\<close> is \<open>false\<close> in the base class
  and overridden by the two specular classes.
\<close>

datatype BSDF =
    DiffuseBSDF Spectrum
  | ReflectBSDF Spectrum
  | RefractBSDF Spectrum real real

fun F :: "BSDF \<Rightarrow> Vector \<Rightarrow> Vector \<Rightarrow> Spectrum" where
  "F (DiffuseBSDF r) wo wi = DiffuseBSDF_F r wo wi"
| "F (ReflectBSDF r) wo wi = ReflectBSDF_F r wo wi"
| "F (RefractBSDF r etai_m etat_m) wo wi = RefractBSDF_F r etai_m etat_m wo wi"

fun SampleF :: "BSDF \<Rightarrow> Vector \<Rightarrow> generator \<Rightarrow> Sample \<times> generator" where
  "SampleF (DiffuseBSDF r) wo g = DiffuseBSDF_SampleF r wo g"
| "SampleF (ReflectBSDF r) wo g = (ReflectBSDF_SampleF r wo, g)"
| "SampleF (RefractBSDF r etai_m etat_m) wo g = (RefractBSDF_SampleF r etai_m etat_m wo, g)"

fun IsDelta :: "BSDF \<Rightarrow> bool" where
  "IsDelta (DiffuseBSDF r) = False"
| "IsDelta (ReflectBSDF r) = True"
| "IsDelta (RefractBSDF r etai_m etat_m) = True"

section \<open>The camera (\<open>zebra/camera.hpp\<close>)\<close>

text \<open>
  Modelled from the spec: \<open>point.hpp\<close> is not among the sources.  \<open>Point2\<close> is a
  pair of \<open>double\<close>s and \<open>Point2i\<close> a pair of \<open>int\<close>s.  Initialising an \<open>int\<close>
  from a \<open>double\<close> truncates towards zero and is undefined when the truncated value is
  not an \<open>int\<close> (32 bits): \<open>to_int\<close> gives \<open>None\<close> there.
\<close>

record Point2 =
  x_p :: real
  y_p :: real

record Point2i =
  x_i :: int
  y_i :: int

definition to_int :: "real \<Rightarrow> int option" where
  "to_int d =
     (let t = (if 0 \<le> d then \<lfloor>d\<rfloor> else \<lceil>d\<rceil>)
      in if - 2147483648 \<le> t \<and> t \<le> 2147483647 then Some t else None)"

record Camera =
  resolution :: Point2i

definition RasterToWorld :: "Camera \<Rightarrow> Point2 \<Rightarrow> Vector option" where
  "RasterToWorld cam p =
     (case fdiv (x_p p) (real_of_int (x_i (resolution cam))) of
        None \<Rightarrow> None
      | Some a \<Rightarrow>
          (case fdiv (y_p p) (real_of_int (y_i (resolution cam))) of
             None \<Rightarrow> None
           | Some b \<Rightarrow> Normalize (Vec (a - 0.5) (0.5 - b) (- 1))))"

definition WorldToRaster :: "Camera \<Rightarrow> Vector \<Rightarrow> Point2i option" where
  "WorldToRaster cam v =
     (if z_c v \<le> 0 then Some \<lparr>x_i = - 1, y_i = - 1\<rparr>
      else
        (case to_int ((0.5 - x_c v) * real_of_int (x_i (resolution cam))) of
           None \<Rightarrow> None
         | Some a \<Rightarrow>
             (case to_int ((0.5 + y_c v) * real_of_int (y_i (resolution cam))) of
                None \<Rightarrow> None
              | Some b \<Rightarrow> Some \<lparr>x_i = a, y_i = b\<rparr>)))"

section \<open>Auxiliary definitions for the proofs\<close>

text \<open>
  The body of \<open>FresnelDielectric\<close> below the swap, as a function of the values that
  \<open>cosi\<close>, \<open>etai\<close> and \<open>etat\<close> hold there.  \<open>FresnelDielectric_core\<close> below shows
  that the function is this body, called on the swapped or the unswapped arguments.
\<close>

definition Fresnel_core :: "real \<Rightarrow> real \<Rightarrow> real \<Rightarrow> real option" where
  "Fresnel_core cosi etai etat =
     (let sini = sqrt (max 0 (1 - cosi * cosi))
      in case fdiv etai etat of
           None \<Rightarrow> None
         | Some q \<Rightarrow>
             (let sint = q * sini
              in if sint \<ge> 1 then Some 1
                 else
                   (let cost = sqrt (max 0 (1 - sint * sint));
                        term1 = etai * cost;
                        term2 = etat * cosi;
                        term3 = etai * cosi;
                        term4 = etat * cost
                    in case fdiv (term2 - term1) (term2 + term1) of
                         None \<Rightarrow> None
                       | Some parl \<Rightarrow>
                           (case fdiv (term3 - term4) (term3 + term4) of
                              None \<Rightarrow> None
                            | Some perp \<Rightarrow> Some ((parl * parl + perp * perp) * 0.5)))))"

section \<open>The Fresnel term\<close>

lemma ratio_sq_le_1:
  fixes a b :: real
  assumes "0 \<le> a" "0 < b"
  shows "((a - b) / (a + b)) * ((a - b) / (a + b)) \<le> 1"
proof -
  have "\<bar>a - b\<bar> \<le> a + b" using assms by simp
  moreover have "0 < a + b" using assms by simp
  ultimately have "\<bar>(a - b) / (a + b)\<bar> \<le> 1" by (simp add: abs_divide)
  then have "\<bar>(a - b) / (a + b)\<bar> * \<bar>(a - b) / (a + b)\<bar> \<le> 1 * 1"
    by (intro mult_mono) simp_all
  then show ?thesis by (simp flip: abs_mult)
qed

lemma FresnelDielectric_core:
  "FresnelDielectric c a b = (if c < 0 then Fresnel_core (- c) b a else Fresnel_core c a b)"
  by (cases "c < 0")
     (simp_all add: FresnelDielectric_def Fresnel_core_def Let_def split: option.split)

lemma cost_pos:
  fixes q s :: real
  assumes "0 \<le> q" "0 \<le> s" "\<not> 1 \<le> q * s"
  shows "0 < sqrt (max 0 (1 - q * s * (q * s)))"
proof -
  have "0 \<le> q * s" using assms by simp
  moreover have "q * s < 1" using assms by simp
  ultimately have "q * s * (q * s) < 1 * 1" by (intro mult_strict_mono') simp_all
  then show ?thesis by simp
qed

text \<open>With positive indices no division of the Fresnel term is by zero, and the
  result is a number between 0 and 1.\<close>

lemma Fresnel_core_range:
  assumes "0 \<le> c" "0 < a" "0 < b"
  shows "\<exists>r. Fresnel_core c a b = Some r \<and> 0 \<le> r \<and> r \<le> 1"
proof -
  define s where "s = sqrt (max 0 (1 - c * c))"
  define q where "q = a / b"
  have q: "0 < q" "fdiv a b = Some q" using assms by (simp_all add: q_def fdiv_def)
  have s: "0 \<le> s" by (simp add: s_def)
  show ?thesis
  proof (cases "1 \<le> q * s")
    case True
    then show ?thesis using q by (simp add: Fresnel_core_def Let_def flip: s_def)
  next
    case False
    define t where "t = sqrt (max 0 (1 - q * s * (q * s)))"
    have t: "0 < t" unfolding t_def using cost_pos[of q s] q s False by simp
    have p1: "0 < b * c + a * t" using assms t by (simp add: add_nonneg_pos)
    have p2: "0 < a * c + b * t" using assms t by (simp add: add_nonneg_pos)
    define P where "P = ((b * c - a * t) / (b * c + a * t)) * ((b * c - a * t) / (b * c + a * t))"
    define Q where "Q = ((a * c - b * t) / (a * c + b * t)) * ((a * c - b * t) / (a * c + b * t))"
    have b1: "P \<le> 1" unfolding P_def
      using ratio_sq_le_1[of "b * c" "a * t"] assms t by simp
    have b2: "Q \<le> 1" unfolding Q_def
      using ratio_sq_le_1[of "a * c" "b * t"] assms t by simp
    have n1: "0 \<le> P" unfolding P_def by simp
    have n2: "0 \<le> Q" unfolding Q_def by simp
    have eq: "Fresnel_core c a b = Some ((P + Q) * 0.5)"
      unfolding P_def Q_def using q False p1 p2
      by (simp add: Fresnel_core_def Let_def fdiv_def flip: s_def t_def)
    have "0 \<le> (P + Q) * 0.5" "(P + Q) * 0.5 \<le> 1" using b1 b2 n1 n2 by simp_all
    then show ?thesis unfolding eq by blast
  qed
qed

lemma FresnelDielectric_range:
  assumes "0 < a" "0 < b"
  shows "\<exists>r. FresnelDielectric c a b = Some r \<and> 0 \<le> r \<and> r \<le> 1"
  using assms by (simp add: FresnelDielectric_core Fresnel_core_range)

text \<open>At a cosine of zero the result is 1, whatever the two positive indices are:
  either the early return fires, or both polarisation terms are \<open>-1\<close>.\<close>

lemma Fresnel_core_grazing:
  assumes "0 < a" "0 < b"
  shows "Fresnel_core 0 a b = Some 1"
proof (cases "1 \<le> a / b")
  case True
  then show ?thesis using assms by (simp add: Fresnel_core_def fdiv_def)
next
  case False
  then have "0 < sqrt (max 0 (1 - a / b * (a / b)))"
    using cost_pos[of "a / b" 1] assms by simp
  then show ?thesis using False assms by (simp add: Fresnel_core_def fdiv_def Let_def)
qed

lemma FresnelDielectric_sint_ge_1:
  assumes "FresnelDielectric_sint c a b = Some s" "1 \<le> s"
  shows "FresnelDielectric c a b = Some 1"
  using assms
  by (cases "c < 0")
     (auto simp: FresnelDielectric_def FresnelDielectric_sint_def Let_def split: option.splits)

lemma sqrt_16_25: "sqrt (16 / 25) = 4 / 5"
  by (rule real_sqrt_unique) (simp_all add: power2_eq_square)

text \<open>
  C4, as amended.  For equal positive indices the reflectance is 0 at the cosines 1 and
  \<open>-1\<close> (normal incidence), where both polarisation terms are \<open>0 / (2 a)\<close>.  At the
  cosine 0 the sine of the transmitted angle is 1, the early return \<open>sint >= 1\<close> fires
  and the reflectance is 1.  All three evaluations are exact in binary64 as well.
\<close>

theorem FresnelDielectric_equal_indices:
  assumes "0 < a"
  shows "FresnelDielectric 1 a a = Some 0
       \<and> FresnelDielectric (- 1) a a = Some 0
       \<and> FresnelDielectric 0 a a = Some 1"
  using assms by (simp add: FresnelDielectric_def fdiv_def)

theorem FresnelDielectric_equal_indices_witness:
  "(0 :: real) < 2
   \<and> FresnelDielectric 1 2 2 = Some 0
   \<and> FresnelDielectric (- 1) 2 2 = Some 0
   \<and> FresnelDielectric 0 2 2 = Some 1"
  using FresnelDielectric_equal_indices [of 2] by simp

text \<open>
  C4, as stated, fails at the cosine 0: with both indices 1 the function returns 1.
\<close>

theorem FresnelDielectric_equal_indices_counterexample:
  "FresnelDielectric 0 1 1 = Some 1 \<and> FresnelDielectric 0 1 1 \<noteq> Some 0"
  by (simp add: FresnelDielectric_def fdiv_def)

text \<open>
  C5.  For positive indices the reflectance is a number in \<open>[0, 1]\<close> (for every cosine,
  in particular for those in \<open>[-1, 1]\<close>), and it is exactly 1 whenever the local
  \<open>sint\<close> is at least 1.
\<close>

theorem FresnelDielectric_unit_interval:
  assumes "0 < etai" "0 < etat"
  shows "(\<exists>r. FresnelDielectric c etai etat = Some r \<and> 0 \<le> r \<and> r \<le> 1)
       \<and> (\<forall>s. FresnelDielectric_sint c etai etat = Some s \<and> 1 \<le> s
              \<longrightarrow> FresnelDielectric c etai etat = Some 1)"
  using assms FresnelDielectric_range [of etai etat c]
  by (auto dest: FresnelDielectric_sint_ge_1)

theorem FresnelDielectric_unit_interval_witness:
  "(0 :: real) < 3 / 2 \<and> (0 :: real) < 1
   \<and> FresnelDielectric_sint (3 / 5) (3 / 2) 1 = Some (6 / 5) \<and> (1 :: real) \<le> 6 / 5
   \<and> FresnelDielectric (3 / 5) (3 / 2) 1 = Some 1"
proof -
  have s: "FresnelDielectric_sint (3 / 5) (3 / 2) 1 = Some (6 / 5)"
    by (simp add: FresnelDielectric_sint_def fdiv_def sqrt_16_25)
  have pos: "(0 :: real) < 3 / 2" "(0 :: real) < 1" by simp_all
  have "FresnelDielectric_sint (3 / 5) (3 / 2) 1 = Some (6 / 5) \<and> (1 :: real) \<le> 6 / 5
        \<longrightarrow> FresnelDielectric (3 / 5) (3 / 2) 1 = Some 1"
    using FresnelDielectric_unit_interval [OF pos, of "3 / 5"] by blast
  with s show ?thesis by simp
qed

text \<open>
  C6.  For positive indices, negating the cosine and exchanging the indices leaves the
  reflectance unchanged, and the reflectance is a number on both sides.
\<close>

theorem FresnelDielectric_symmetry:
  assumes "0 < a" "0 < b"
  shows "FresnelDielectric c a b = FresnelDielectric (- c) b a
       \<and> FresnelDielectric c a b \<noteq> None"
proof -
  consider "c < 0" | "c = 0" | "0 < c" by linarith
  then have "FresnelDielectric c a b = FresnelDielectric (- c) b a"
  proof cases
    case 1 then show ?thesis by (simp add: FresnelDielectric_core)
  next
    case 2 then show ?thesis using assms by (simp add: FresnelDielectric_core Fresnel_core_grazing)
  next
    case 3 then show ?thesis by (simp add: FresnelDielectric_core)
  qed
  moreover have "FresnelDielectric c a b \<noteq> None"
    using FresnelDielectric_range [OF assms, of c] by auto
  ultimately show ?thesis by simp
qed

theorem FresnelDielectric_symmetry_witness:
  "(0 :: real) < 1 \<and> (0 :: real) < 3 / 2
   \<and> FresnelDielectric 1 1 (3 / 2) = Some (1 / 25)
   \<and> FresnelDielectric (- 1) (3 / 2) 1 = Some (1 / 25)"
proof -
  have "FresnelDielectric 1 1 (3 / 2) = Some (1 / 25)"
    by (simp add: FresnelDielectric_def fdiv_def)
  then show ?thesis using FresnelDielectric_symmetry [of 1 "3 / 2" 1] by simp
qed

section \<open>Vectors\<close>

lemma Vec_sel [simp]: "x_c (Vec a b c) = a" "y_c (Vec a b c) = b" "z_c (Vec a b c) = c"
  by (simp_all add: Vec_def)

lemma Vec_eq_iff: "Vec a b c = Vec a' b' c' \<longleftrightarrow> a = a' \<and> b = b' \<and> c = c'"
  by (simp add: Vec_def)

lemma Length_zero_iff: "Length v = 0 \<longleftrightarrow> x_c v = 0 \<and> y_c v = 0 \<and> z_c v = 0"
proof -
  have "x_c v * x_c v + y_c v * y_c v + z_c v * z_c v = 0
        \<longleftrightarrow> x_c v = 0 \<and> y_c v = 0 \<and> z_c v = 0"
    using sum_power2_eq_zero_iff[of "x_c v" "y_c v"]
          sum_power2_eq_zero_iff[of "sqrt ((x_c v)\<^sup>2 + (y_c v)\<^sup>2)" "z_c v"]
    by (auto simp: power2_eq_square add_nonneg_eq_0_iff)
  then show ?thesis by (simp add: Length_def)
qed

lemma Length_nonneg: "0 \<le> Length v"
  by (simp add: Length_def)

lemma Normalize_None_iff: "Normalize v = None \<longleftrightarrow> x_c v = 0 \<and> y_c v = 0 \<and> z_c v = 0"
  by (simp add: Normalize_def vdiv_def Length_zero_iff)

lemma Normalize_z:
  assumes "z_c v \<noteq> 0"
  shows "\<exists>w. Normalize v = Some w \<and> z_c w = z_c v / Length v \<and> 0 < Length v"
proof -
  have "Length v \<noteq> 0" using assms by (simp add: Length_zero_iff)
  then show ?thesis using Length_nonneg[of v] by (simp add: Normalize_def vdiv_def)
qed

lemma Normalize_unit:
  assumes "x_c v * x_c v + y_c v * y_c v + z_c v * z_c v = 1"
  shows "Normalize v = Some v"
  using assms by (simp add: Normalize_def vdiv_def Length_def Vec_def)

lemma vdiv_None_iff: "vdiv v k = None \<longleftrightarrow> k = 0"
  by (simp add: vdiv_def)

section \<open>ReflectBSDF\<close>

text \<open>What \<open>ReflectBSDF\<close> does away from \<open>wo.z = 0\<close>: the mirrored direction, the
  density 1, and the reflectance divided by \<open>CosTheta(wi)\<close>, sign included.\<close>

lemma ReflectBSDF_SampleF_nonzero:
  assumes "z_c wo \<noteq> 0"
  shows "ReflectBSDF_SampleF r wo =
           \<lparr>ret = Some (vmul r (1 / z_c wo)),
            wi_out = Some (Vec (- x_c wo) (- y_c wo) (z_c wo)), pdf_out = Some 1\<rparr>"
  using assms by (simp add: ReflectBSDF_SampleF_def fdiv_def CosTheta_def)

lemma ReflectBSDF_delta: "IsDelta (ReflectBSDF r) \<and> F (ReflectBSDF r) wo wi = Spectrum0"
  by (simp add: ReflectBSDF_F_def)

text \<open>
  C1.  The specified value of \<open>ReflectBSDF::SampleF\<close> is the reflectance divided by
  the absolute value of \<open>wi.z\<close>.  The function divides by \<open>CosTheta(wi)\<close>, without
  the absolute value that the reflection branch of \<open>RefractBSDF::SampleF\<close> takes.
  For the reflectance \<open>(1, 1, 1)\<close> and \<open>wo = (0, 0, -1)\<close> it sets \<open>wi\<close> to
  \<open>(0, 0, -1)\<close> and \<open>pdf\<close> to 1 and returns \<open>(-1, -1, -1)\<close>, where the quotient
  by \<open>AbsCosTheta(wi)\<close> is \<open>(1, 1, 1)\<close>.
\<close>

theorem ReflectBSDF_SampleF_below:
  "ReflectBSDF_SampleF (Vec 1 1 1) (Vec 0 0 (- 1)) =
     \<lparr>ret = Some (Vec (- 1) (- 1) (- 1)), wi_out = Some (Vec 0 0 (- 1)), pdf_out = Some 1\<rparr>
   \<and> vdiv (Vec 1 1 1) (AbsCosTheta (Vec 0 0 (- 1))) = Some (Vec 1 1 1)
   \<and> Vec (- 1) (- 1) (- 1) \<noteq> Vec 1 1 1"
  by (simp add: ReflectBSDF_SampleF_def fdiv_def CosTheta_def AbsCosTheta_def vmul_def vdiv_def Vec_eq_iff)

section \<open>DiffuseBSDF\<close>

text \<open>The vector that the sampler normalises has length 1, so \<open>Normalize\<close> never
  divides by zero there.\<close>

lemma CosineWeightedHemisphere_unit:
  "\<exists>w. fst (CosineWeightedHemisphere g) = Some w"
proof -
  have "(sin t * cos p) * (sin t * cos p) + (sin t * sin p) * (sin t * sin p) + cos t * cos t = 1"
    for t p :: real
  proof -
    have "(sin t * cos p) * (sin t * cos p) + (sin t * sin p) * (sin t * sin p)
          = (sin t)\<^sup>2 * ((cos p)\<^sup>2 + (sin p)\<^sup>2)"
      unfolding power2_eq_square by (simp only: distrib_left mult_ac)
    also have "\<dots> = (sin t)\<^sup>2" by simp
    finally have "(sin t * cos p) * (sin t * cos p) + (sin t * sin p) * (sin t * sin p)
          + cos t * cos t = (sin t)\<^sup>2 + (cos t)\<^sup>2"
      by (simp add: power2_eq_square)
    then show ?thesis by simp
  qed
  then show ?thesis
    by (simp add: CosineWeightedHemisphere_def distribution_def Let_def Normalize_unit)
qed

text \<open>
  C7.  \<open>DiffuseBSDF::F\<close> is the reflectance times \<open>1 / pi\<close> for every pair of
  directions, and \<open>DiffuseBSDF::SampleF\<close> always produces a direction \<open>wi\<close>,
  the density \<open>wi.z / pi\<close> and the value \<open>F(wo, wi)\<close>, whatever the generator's
  state is.
\<close>

theorem DiffuseBSDF_values:
  "DiffuseBSDF_F r wo wi = vmul r (1 / pi)
   \<and> (\<exists>w. wi_out (fst (DiffuseBSDF_SampleF r wo g)) = Some w
          \<and> pdf_out (fst (DiffuseBSDF_SampleF r wo g)) = Some (z_c w / pi)
          \<and> ret (fst (DiffuseBSDF_SampleF r wo g)) = Some (DiffuseBSDF_F r wo w))"
proof -
  obtain w where w: "fst (CosineWeightedHemisphere g) = Some w"
    using CosineWeightedHemisphere_unit by blast
  then have "wi_out (fst (DiffuseBSDF_SampleF r wo g)) = Some w
          \<and> pdf_out (fst (DiffuseBSDF_SampleF r wo g)) = Some (z_c w / pi)
          \<and> ret (fst (DiffuseBSDF_SampleF r wo g)) = Some (DiffuseBSDF_F r wo w)"
    by (simp add: DiffuseBSDF_SampleF_def Let_def split_beta CosTheta_def INV_PI_def)
  then show ?thesis by (auto simp: DiffuseBSDF_F_def INV_PI_def)
qed

section \<open>RefractBSDF\<close>

lemma RefractBSDF_sint_SomeD:
  assumes "RefractBSDF_sint etai_m etat_m wo = Some s"
  shows "\<exists>eta. fdiv (if CosTheta wo < 0 then etai_m else etat_m)
                   (if CosTheta wo < 0 then etat_m else etai_m) = Some eta
             \<and> s = eta * eta * max 0 (1 - AbsCosTheta wo * AbsCosTheta wo)"
proof (cases "fdiv (if CosTheta wo < 0 then etai_m else etat_m)
                   (if CosTheta wo < 0 then etat_m else etai_m)")
  case None
  then show ?thesis using assms
    by (simp add: RefractBSDF_sint_def RefractBSDF_etas_def Let_def)
next
  case (Some eta)
  then show ?thesis using assms
    by (simp add: RefractBSDF_sint_def RefractBSDF_etas_def Let_def)
qed

lemma RefractBSDF_SampleF_tir:
  assumes "RefractBSDF_sint etai_m etat_m wo = Some s" "1 \<le> s"
  shows "RefractBSDF_SampleF r etai_m etat_m wo =
           \<lparr>ret = vdiv (vmul r 1) (AbsCosTheta (Vec (- x_c wo) (- y_c wo) (z_c wo))),
            wi_out = Some (Vec (- x_c wo) (- y_c wo) (z_c wo)), pdf_out = Some 1\<rparr>"
proof -
  from RefractBSDF_sint_SomeD[OF assms(1)] obtain eta where
    e: "fdiv (if CosTheta wo < 0 then etai_m else etat_m)
             (if CosTheta wo < 0 then etat_m else etai_m) = Some eta"
    and s: "s = eta * eta * max 0 (1 - AbsCosTheta wo * AbsCosTheta wo)" by blast
  have "\<not> eta * eta * max 0 (1 - AbsCosTheta wo * AbsCosTheta wo) < 1"
    using assms(2) s by simp
  then show ?thesis
    unfolding RefractBSDF_SampleF_def Let_def e option.case
    by (simp only: if_False)
qed

lemma RefractBSDF_SampleF_refraction:
  assumes "RefractBSDF_sint etai_m etat_m wo = Some s" "s < 1"
  shows "\<exists>wi. RefractBSDF_SampleF r etai_m etat_m wo =
           \<lparr>ret = (case RefractBSDF_re etai_m etat_m wo of
                     None \<Rightarrow> None
                   | Some re \<Rightarrow>
                       (case wi of
                          None \<Rightarrow> None
                        | Some w \<Rightarrow> vdiv (vmul r (1 - re)) (AbsCosTheta w))),
            wi_out = wi,
            pdf_out = map_option (\<lambda>re. 1 - re) (RefractBSDF_re etai_m etat_m wo)\<rparr>"
proof -
  from RefractBSDF_sint_SomeD[OF assms(1)] obtain eta where
    e: "fdiv (if CosTheta wo < 0 then etai_m else etat_m)
             (if CosTheta wo < 0 then etat_m else etai_m) = Some eta"
    and s: "s = eta * eta * max 0 (1 - AbsCosTheta wo * AbsCosTheta wo)" by blast
  have lt: "eta * eta * max 0 (1 - AbsCosTheta wo * AbsCosTheta wo) < 1"
    using assms(2) s by simp
  have re: "RefractBSDF_re etai_m etat_m wo =
      (let etai = (if CosTheta wo < 0 then etai_m else etat_m);
           etat = (if CosTheta wo < 0 then etat_m else etai_m);
           cosi = AbsCosTheta wo;
           cost = sqrt (1 - eta * eta * max 0 (1 - AbsCosTheta wo * AbsCosTheta wo));
           term1 = etai * cost;
           term2 = etat * cosi;
           term3 = etai * cosi;
           term4 = etat * cost
       in case fdiv (term2 - term1) (term2 + term1) of
            None \<Rightarrow> None
          | Some parl \<Rightarrow>
              (case fdiv (term3 - term4) (term3 + term4) of
                 None \<Rightarrow> None
               | Some perp \<Rightarrow> Some ((parl * parl + perp * perp) * 0.5)))"
    unfolding RefractBSDF_re_def assms(1) option.case RefractBSDF_etas_def Let_def prod.case s
    by (rule refl)
  show ?thesis
    unfolding re unfolding RefractBSDF_SampleF_def Let_def e option.case
    by (simp only: lt if_True) (rule exI, rule refl)
qed

lemma RefractBSDF_SampleF_pdf:
  assumes "RefractBSDF_sint etai_m etat_m wo = Some s" "s < 1"
  shows "pdf_out (RefractBSDF_SampleF r etai_m etat_m wo)
         = map_option (\<lambda>re. 1 - re) (RefractBSDF_re etai_m etat_m wo)"
  using RefractBSDF_SampleF_refraction[OF assms, of r] by auto

lemma sq_lt_1_imp:
  fixes q t :: real
  assumes "0 \<le> t" "q * q * t < 1"
  shows "\<not> 1 \<le> q * sqrt t"
    and "sqrt (max 0 (1 - q * sqrt t * (q * sqrt t))) = sqrt (1 - q * q * t)"
proof -
  have "sqrt t * sqrt t = t" using assms(1) by simp
  then have "q * q * (sqrt t * sqrt t) = q * q * t" by simp
  then have e: "q * sqrt t * (q * sqrt t) = q * q * t" by (simp only: mult_ac)
  show "\<not> 1 \<le> q * sqrt t"
  proof
    assume "1 \<le> q * sqrt t"
    then have "1 * 1 \<le> q * sqrt t * (q * sqrt t)" by (intro mult_mono) simp_all
    then show False unfolding e using assms(2) by simp
  qed
  have "max 0 (1 - q * q * t) = 1 - q * q * t" using assms(2) by simp
  then show "sqrt (max 0 (1 - q * sqrt t * (q * sqrt t))) = sqrt (1 - q * q * t)"
    unfolding e by simp
qed

lemma RefractBSDF_re_Fresnel_core:
  assumes "RefractBSDF_sint etai_m etat_m wo = Some s" "s < 1"
      and "RefractBSDF_etas etai_m etat_m wo = (etai, etat)"
  shows "RefractBSDF_re etai_m etat_m wo = Fresnel_core (AbsCosTheta wo) etai etat"
proof -
  define c where "c = AbsCosTheta wo"
  define t where "t = max 0 (1 - c * c)"
  have t: "0 \<le> t" by (simp add: t_def)
  from assms(1,3) obtain q where q: "fdiv etai etat = Some q" "s = q * q * t"
    by (auto simp: RefractBSDF_sint_def Let_def c_def t_def split: option.splits)
  note k = sq_lt_1_imp[OF t, of q] 
  have k1: "\<not> 1 \<le> q * sqrt t" using k(1) q(2) assms(2) by simp
  have k2: "sqrt (max 0 (1 - q * sqrt t * (q * sqrt t))) = sqrt (1 - s)"
    using k(2) q(2) assms(2) by simp
  have "Fresnel_core c etai etat =
        (let cost = sqrt (1 - s);
             term1 = etai * cost; term2 = etat * c; term3 = etai * c; term4 = etat * cost
         in case fdiv (term2 - term1) (term2 + term1) of
                   None \<Rightarrow> None
                 | Some parl \<Rightarrow>
                     (case fdiv (term3 - term4) (term3 + term4) of
                        None \<Rightarrow> None
                      | Some perp \<Rightarrow> Some ((parl * parl + perp * perp) * 0.5)))"
    using q(1) k1 k2 by (simp add: Fresnel_core_def Let_def flip: t_def)
  moreover have "RefractBSDF_re etai_m etat_m wo =
        (let cost = sqrt (1 - s);
             term1 = etai * cost; term2 = etat * c; term3 = etai * c; term4 = etat * cost
         in case fdiv (term2 - term1) (term2 + term1) of
                   None \<Rightarrow> None
                 | Some parl \<Rightarrow>
                     (case fdiv (term3 - term4) (term3 + term4) of
                        None \<Rightarrow> None
                      | Some perp \<Rightarrow> Some ((parl * parl + perp * perp) * 0.5)))"
    using assms(1,3) by (simp add: RefractBSDF_re_def Let_def c_def)
  ultimately show ?thesis by (simp add: c_def)
qed

lemma sint_normal: "RefractBSDF_sint 1 (3 / 2) (Vec 0 0 (- 1)) = Some 0"
  by (simp add: RefractBSDF_sint_def RefractBSDF_etas_def CosTheta_def AbsCosTheta_def fdiv_def)

lemma re_normal: "RefractBSDF_re 1 (3 / 2) (Vec 0 0 (- 1)) = Some (1 / 25)"
  by (simp add: RefractBSDF_re_def sint_normal RefractBSDF_etas_def CosTheta_def AbsCosTheta_def fdiv_def)

lemma sqrt_1_9: "sqrt (1 / 9) = 1 / 3"
  by (rule real_sqrt_unique) (simp_all add: power2_eq_square)

text \<open>
  C9.  In the branch \<open>sint < 1\<close> the reflectance \<open>re\<close> that
  \<open>RefractBSDF::SampleF\<close> computes inline is \<open>FresnelDielectric\<close> of
  \<open>AbsCosTheta(wo)\<close> and the pair of indices chosen by \<open>entering\<close>, and the density
  written to \<open>pdf\<close> is 1 minus that reflectance.  The two computations agree also in
  whether they divide by zero.
\<close>

theorem RefractBSDF_re_FresnelDielectric:
  assumes "RefractBSDF_sint etai_m etat_m wo = Some s" "s < 1"
  shows "RefractBSDF_re etai_m etat_m wo =
           (case RefractBSDF_etas etai_m etat_m wo of
              (etai, etat) \<Rightarrow> FresnelDielectric (AbsCosTheta wo) etai etat)
       \<and> pdf_out (RefractBSDF_SampleF r etai_m etat_m wo)
           = map_option (\<lambda>re. 1 - re) (RefractBSDF_re etai_m etat_m wo)"
proof -
  obtain etai etat where e: "RefractBSDF_etas etai_m etat_m wo = (etai, etat)"
    by (cases "RefractBSDF_etas etai_m etat_m wo")
  have "\<not> AbsCosTheta wo < 0" by (simp add: AbsCosTheta_def)
  then have "FresnelDielectric (AbsCosTheta wo) etai etat = Fresnel_core (AbsCosTheta wo) etai etat"
    by (simp add: FresnelDielectric_core)
  then show ?thesis
    using RefractBSDF_re_Fresnel_core[OF assms e] RefractBSDF_SampleF_pdf[OF assms, of r] e
    by simp
qed

theorem RefractBSDF_re_FresnelDielectric_witness:
  "RefractBSDF_sint 1 (3 / 2) (Vec 0 0 (- 1)) = Some 0 \<and> (0 :: real) < 1
   \<and> RefractBSDF_re 1 (3 / 2) (Vec 0 0 (- 1)) = Some (1 / 25)
   \<and> FresnelDielectric (AbsCosTheta (Vec 0 0 (- 1))) 1 (3 / 2) = Some (1 / 25)
   \<and> pdf_out (RefractBSDF_SampleF (Vec 1 1 1) 1 (3 / 2) (Vec 0 0 (- 1))) = Some (24 / 25)"
proof -
  have e: "RefractBSDF_etas 1 (3 / 2) (Vec 0 0 (- 1)) = (1, 3 / 2)"
    by (simp add: RefractBSDF_etas_def CosTheta_def)
  show ?thesis
    using RefractBSDF_re_FresnelDielectric [OF sint_normal, of "Vec 1 1 1"] re_normal e sint_normal
    by simp
qed

text \<open>
  C8.  When the squared sine \<open>sint\<close> is at least 1, \<open>RefractBSDF::SampleF\<close> takes
  the reflection branch: \<open>wi\<close> is \<open>(-wo.x, -wo.y, wo.z)\<close>, the density is \<open>re = 1\<close>,
  and the value is the quotient of \<open>reflectance * re\<close> by \<open>AbsCosTheta(wi)\<close>.
\<close>

theorem RefractBSDF_total_internal_reflection:
  assumes "RefractBSDF_sint etai_m etat_m wo = Some s" "1 \<le> s"
  shows "RefractBSDF_SampleF r etai_m etat_m wo =
           \<lparr>ret = vdiv (vmul r 1) (AbsCosTheta (Vec (- x_c wo) (- y_c wo) (z_c wo))),
            wi_out = Some (Vec (- x_c wo) (- y_c wo) (z_c wo)), pdf_out = Some 1\<rparr>"
  using assms by (rule RefractBSDF_SampleF_tir)

theorem RefractBSDF_total_internal_reflection_witness:
  "RefractBSDF_sint (3 / 2) 1 (Vec (4 / 5) 0 (- 3 / 5)) = Some (36 / 25) \<and> (1 :: real) \<le> 36 / 25
   \<and> RefractBSDF_SampleF (Vec 1 1 1) (3 / 2) 1 (Vec (4 / 5) 0 (- 3 / 5)) =
       \<lparr>ret = Some (Vec (5 / 3) (5 / 3) (5 / 3)),
        wi_out = Some (Vec (- 4 / 5) 0 (- 3 / 5)), pdf_out = Some 1\<rparr>"
proof -
  have s: "RefractBSDF_sint (3 / 2) 1 (Vec (4 / 5) 0 (- 3 / 5)) = Some (36 / 25)"
    by (simp add: RefractBSDF_sint_def RefractBSDF_etas_def CosTheta_def AbsCosTheta_def fdiv_def)
  have l: "(1 :: real) \<le> 36 / 25" by simp
  show ?thesis
    using RefractBSDF_total_internal_reflection [OF s l, of "Vec 1 1 1"] s
    by (simp add: AbsCosTheta_def vdiv_def vmul_def)
qed

text \<open>
  C2.  The specified direction for the indices 1 and 1.5 and \<open>wo = (0, 0, -1)\<close> lies in
  the upper hemisphere.  \<open>RefractBSDF::SampleF\<close> computes the reflectance
  \<open>re = 1/25 = 0.04\<close> and the density \<open>24/25 = 0.96\<close>, and normalises the vector
  \<open>(0, 0, -2/3 + 1/3)\<close>: the sampled direction is \<open>(0, 0, -1)\<close>, the direction
  \<open>(-wo.x, -wo.y, wo.z)\<close> that the reflection branch of the same function returns.
\<close>

theorem RefractBSDF_SampleF_normal_incidence:
  "RefractBSDF_SampleF (Vec 1 1 1) 1 (3 / 2) (Vec 0 0 (- 1)) =
       \<lparr>ret = Some (Vec (24 / 25) (24 / 25) (24 / 25)),
        wi_out = Some (Vec 0 0 (- 1)), pdf_out = Some (24 / 25)\<rparr>
   \<and> RefractBSDF_re 1 (3 / 2) (Vec 0 0 (- 1)) = Some (1 / 25)
   \<and> \<not> 0 < z_c (Vec 0 0 (- 1))"
proof -
  have "RefractBSDF_SampleF (Vec 1 1 1) 1 (3 / 2) (Vec 0 0 (- 1)) =
       \<lparr>ret = Some (Vec (24 / 25) (24 / 25) (24 / 25)),
        wi_out = Some (Vec 0 0 (- 1)), pdf_out = Some (24 / 25)\<rparr>"
    by (simp add: RefractBSDF_SampleF_def CosTheta_def AbsCosTheta_def fdiv_def Let_def
                  Normalize_def Length_def vdiv_def vadd_def vmul_def sqrt_1_9)
  then show ?thesis using re_normal by simp
qed

subsection \<open>The refracted direction\<close>

text \<open>
  The vector that line 162 hands to \<open>Normalize\<close> is \<open>wo * eta\<close> plus a multiple of
  the \<open>z\<close> axis; its \<open>z\<close> component is \<open>cost - 2 * eta * cosi\<close> up to sign.  At
  normal incidence the hemisphere of the sampled direction therefore depends on the
  indices: for 1 and 1.5 it is the lower one (above), for 1 and 3 the upper one, and for
  1 and 2 the vector is zero and \<open>Normalize\<close> divides by zero.
\<close>

lemma RefractBSDF_upper_hemisphere:
  "wi_out (RefractBSDF_SampleF (Vec 1 1 1) 1 3 (Vec 0 0 (- 1))) = Some (Vec 0 0 1)"
  by (simp add: RefractBSDF_SampleF_def CosTheta_def AbsCosTheta_def fdiv_def Let_def
                Normalize_def Length_def vdiv_def vadd_def vmul_def sqrt_1_9)

lemma RefractBSDF_zero_vector:
  "wi_out (RefractBSDF_SampleF (Vec 1 1 1) 1 2 (Vec 0 0 (- 1))) = None
   \<and> ret (RefractBSDF_SampleF (Vec 1 1 1) 1 2 (Vec 0 0 (- 1))) = None"
  by (simp add: RefractBSDF_SampleF_def CosTheta_def AbsCosTheta_def fdiv_def Let_def
                Normalize_def Length_def vdiv_def vadd_def vmul_def)

text \<open>Away from normal incidence the same happens with \<open>wo.z\<close> other than 0: for the
  indices 11 and 13 and \<open>wo = (1, 0, -4/11)\<close> the sampled direction is \<open>(1, 0, 0)\<close> and
  the value is a division by \<open>AbsCosTheta(wi) = 0\<close>.\<close>

lemma sqrt_64_169: "sqrt (64 / 169) = 8 / 13"
  by (rule real_sqrt_unique) (simp_all add: power2_eq_square)

lemma sqrt_121_169: "sqrt (121 / 169) = 11 / 13"
  by (rule real_sqrt_unique) (simp_all add: power2_eq_square)

lemma RefractBSDF_grazing_direction:
  "wi_out (RefractBSDF_SampleF (Vec 1 1 1) 11 13 (Vec 1 0 (- 4 / 11))) = Some (Vec 1 0 0)
   \<and> ret (RefractBSDF_SampleF (Vec 1 1 1) 11 13 (Vec 1 0 (- 4 / 11))) = None"
  by (simp add: RefractBSDF_SampleF_def CosTheta_def AbsCosTheta_def fdiv_def Let_def
                Normalize_def Length_def vdiv_def vadd_def vmul_def sqrt_64_169 sqrt_121_169)

text \<open>In general, for positive indices the refraction branch divides by zero exactly
  when \<open>cost = 2 * eta * cosi\<close>.\<close>

lemma RefractBSDF_sint_finite:
  assumes "0 < etai_m" "0 < etat_m"
  shows "\<exists>s. RefractBSDF_sint etai_m etat_m wo = Some s"
  using assms by (simp add: RefractBSDF_sint_def RefractBSDF_etas_def fdiv_def Let_def)

lemma RefractBSDF_re_finite:
  assumes "0 < etai_m" "0 < etat_m" "RefractBSDF_sint etai_m etat_m wo = Some s" "s < 1"
  shows "\<exists>re. RefractBSDF_re etai_m etat_m wo = Some re"
proof -
  obtain etai etat where e: "RefractBSDF_etas etai_m etat_m wo = (etai, etat)"
    by (cases "RefractBSDF_etas etai_m etat_m wo")
  then have p: "0 < etai" "0 < etat" using assms(1,2)
    by (auto simp: RefractBSDF_etas_def Let_def split: if_splits)
  have "0 \<le> AbsCosTheta wo" by (simp add: AbsCosTheta_def)
  then show ?thesis
    using RefractBSDF_re_Fresnel_core[OF assms(3,4) e] Fresnel_core_range[of "AbsCosTheta wo" etai etat] p
    by auto
qed

lemma RefractBSDF_SampleF_refraction_dir:
  assumes "RefractBSDF_sint etai_m etat_m wo = Some s" "s < 1"
  shows "\<exists>eta. fdiv (if CosTheta wo < 0 then etai_m else etat_m)
                   (if CosTheta wo < 0 then etat_m else etai_m) = Some eta
             \<and> wi_out (RefractBSDF_SampleF r etai_m etat_m wo) =
                 Normalize (vadd (vmul wo eta)
                   (vmul (Vec 0 0 1)
                      ((eta * AbsCosTheta wo - sqrt (1 - s))
                         * (if CosTheta wo < 0 then - 1 else 1))))"
proof -
  from RefractBSDF_sint_SomeD[OF assms(1)] obtain eta where
    e: "fdiv (if CosTheta wo < 0 then etai_m else etat_m)
             (if CosTheta wo < 0 then etat_m else etai_m) = Some eta"
    and s: "s = eta * eta * max 0 (1 - AbsCosTheta wo * AbsCosTheta wo)" by blast
  have lt: "eta * eta * max 0 (1 - AbsCosTheta wo * AbsCosTheta wo) < 1"
    using assms(2) s by simp
  have "wi_out (RefractBSDF_SampleF r etai_m etat_m wo) =
                 Normalize (vadd (vmul wo eta)
                   (vmul (Vec 0 0 1)
                      ((eta * AbsCosTheta wo - sqrt (1 - s))
                         * (if CosTheta wo < 0 then - 1 else 1))))"
    unfolding s unfolding RefractBSDF_SampleF_def Let_def e option.case
    by (simp only: lt if_True Sample.simps)
  with e show ?thesis by blast
qed

lemma refracted_z:
  "z_c (vadd (vmul wo eta)
          (vmul (Vec 0 0 1)
             ((eta * AbsCosTheta wo - t) * (if CosTheta wo < 0 then - 1 else 1))))
   = (if CosTheta wo < 0 then t - 2 * eta * AbsCosTheta wo else 2 * eta * AbsCosTheta wo - t)"
  by (simp add: vadd_def vmul_def CosTheta_def AbsCosTheta_def algebra_simps)

lemma Normalize_z_zero_iff:
  "(Normalize v = None \<or> (\<exists>w. Normalize v = Some w \<and> z_c w = 0)) \<longleftrightarrow> z_c v = 0"
proof (cases "z_c v = 0")
  case True
  then show ?thesis by (cases "Length v = 0") (auto simp: Normalize_def vdiv_def)
next
  case False
  then show ?thesis using Normalize_z[of v] by auto
qed

lemma RefractBSDF_refraction_division_by_zero:
  assumes "0 < etai_m" "0 < etat_m"
      and "RefractBSDF_sint etai_m etat_m wo = Some s" "s < 1"
      and "RefractBSDF_etas etai_m etat_m wo = (etai, etat)"
  shows "ret (RefractBSDF_SampleF r etai_m etat_m wo) = None
         \<longleftrightarrow> sqrt (1 - s) = 2 * (etai / etat) * AbsCosTheta wo"
proof -
  obtain re where re: "RefractBSDF_re etai_m etat_m wo = Some re"
    using RefractBSDF_re_finite[OF assms(1-4)] by blast
  obtain wi' where wi': "RefractBSDF_SampleF r etai_m etat_m wo =
           \<lparr>ret = (case wi' of None \<Rightarrow> None | Some w \<Rightarrow> vdiv (vmul r (1 - re)) (AbsCosTheta w)),
            wi_out = wi', pdf_out = Some (1 - re)\<rparr>"
    using RefractBSDF_SampleF_refraction[OF assms(3,4), of r] unfolding re by auto
  from RefractBSDF_SampleF_refraction_dir[OF assms(3,4), of r] obtain eta where
    e: "fdiv (if CosTheta wo < 0 then etai_m else etat_m)
             (if CosTheta wo < 0 then etat_m else etai_m) = Some eta"
    and d: "wi_out (RefractBSDF_SampleF r etai_m etat_m wo) =
                 Normalize (vadd (vmul wo eta)
                   (vmul (Vec 0 0 1)
                      ((eta * AbsCosTheta wo - sqrt (1 - s))
                         * (if CosTheta wo < 0 then - 1 else 1))))" by blast
  define v where "v = vadd (vmul wo eta)
                   (vmul (Vec 0 0 1)
                      ((eta * AbsCosTheta wo - sqrt (1 - s))
                         * (if CosTheta wo < 0 then - 1 else 1)))"
  have eta: "eta = etai / etat"
    using e assms(1,2,5) by (auto simp: RefractBSDF_etas_def Let_def fdiv_def split: if_splits)
  have w: "wi' = Normalize v" using d wi' by (simp add: v_def)
  have "ret (RefractBSDF_SampleF r etai_m etat_m wo) = None
        \<longleftrightarrow> (Normalize v = None \<or> (\<exists>w. Normalize v = Some w \<and> z_c w = 0))"
    unfolding wi' w by (cases "Normalize v") (simp_all add: vdiv_None_iff AbsCosTheta_def)
  also have "\<dots> \<longleftrightarrow> z_c v = 0" by (rule Normalize_z_zero_iff)
  also have "\<dots> \<longleftrightarrow> sqrt (1 - s) = 2 * eta * AbsCosTheta wo"
    unfolding v_def refracted_z by auto
  finally show ?thesis unfolding eta .
qed

section \<open>Divisions by zero\<close>

text \<open>
  C3, as amended.  No \<open>F\<close> divides.  \<open>DiffuseBSDF::SampleF\<close> never divides by zero.
  \<open>ReflectBSDF::SampleF\<close> always sets \<open>wi\<close> to \<open>(-wo.x, -wo.y, wo.z)\<close> and
  \<open>pdf\<close> to 1, and the division in its value is by zero exactly when \<open>wo.z\<close> is 0.
  For positive indices the reflection branch of \<open>RefractBSDF::SampleF\<close> sets the same
  \<open>wi\<close> and \<open>pdf\<close>, and the division in its value is by zero exactly when \<open>wo.z\<close>
  is 0.  For indices that are at least 1, \<open>RefractBSDF::SampleF\<close> computes \<open>re\<close> and
  \<open>pdf\<close> without a division by zero in either branch.  The direction and the value
  of the refraction branch are those of the lemmas above and are no part of this
  statement, and neither is the size of a quotient whose divisor is not zero.
\<close>

theorem SampleF_division_by_zero:
  assumes "0 < etai_m" "0 < etat_m"
  shows "F (DiffuseBSDF r) wo wi = vmul r INV_PI
       \<and> F (ReflectBSDF r) wo wi = Spectrum0
       \<and> F (RefractBSDF r etai_m etat_m) wo wi = Spectrum0
       \<and> ret (fst (DiffuseBSDF_SampleF r wo g)) \<noteq> None
       \<and> wi_out (fst (DiffuseBSDF_SampleF r wo g)) \<noteq> None
       \<and> pdf_out (fst (DiffuseBSDF_SampleF r wo g)) \<noteq> None
       \<and> wi_out (ReflectBSDF_SampleF r wo) = Some (Vec (- x_c wo) (- y_c wo) (z_c wo))
       \<and> pdf_out (ReflectBSDF_SampleF r wo) = Some 1
       \<and> (ret (ReflectBSDF_SampleF r wo) = None \<longleftrightarrow> z_c wo = 0)
       \<and> (\<exists>s. RefractBSDF_sint etai_m etat_m wo = Some s
            \<and> (1 \<le> s \<longrightarrow>
                 wi_out (RefractBSDF_SampleF r etai_m etat_m wo)
                   = Some (Vec (- x_c wo) (- y_c wo) (z_c wo))
               \<and> pdf_out (RefractBSDF_SampleF r etai_m etat_m wo) = Some 1
               \<and> (ret (RefractBSDF_SampleF r etai_m etat_m wo) = None \<longleftrightarrow> z_c wo = 0)))
       \<and> (1 \<le> etai_m \<and> 1 \<le> etat_m
            \<longrightarrow> pdf_out (RefractBSDF_SampleF r etai_m etat_m wo) \<noteq> None)"
proof -
  have f: "F (DiffuseBSDF r) wo wi = vmul r INV_PI \<and> F (ReflectBSDF r) wo wi = Spectrum0
       \<and> F (RefractBSDF r etai_m etat_m) wo wi = Spectrum0"
    by (simp add: DiffuseBSDF_F_def ReflectBSDF_F_def RefractBSDF_F_def)
  obtain w where w: "fst (CosineWeightedHemisphere g) = Some w"
    using CosineWeightedHemisphere_unit by blast
  then have d: "ret (fst (DiffuseBSDF_SampleF r wo g)) \<noteq> None
       \<and> wi_out (fst (DiffuseBSDF_SampleF r wo g)) \<noteq> None
       \<and> pdf_out (fst (DiffuseBSDF_SampleF r wo g)) \<noteq> None"
    by (simp add: DiffuseBSDF_SampleF_def Let_def split_beta)
  have m: "wi_out (ReflectBSDF_SampleF r wo) = Some (Vec (- x_c wo) (- y_c wo) (z_c wo))
       \<and> pdf_out (ReflectBSDF_SampleF r wo) = Some 1
       \<and> (ret (ReflectBSDF_SampleF r wo) = None \<longleftrightarrow> z_c wo = 0)"
    by (simp add: ReflectBSDF_SampleF_def fdiv_def CosTheta_def Let_def)
  obtain s where s: "RefractBSDF_sint etai_m etat_m wo = Some s"
    using RefractBSDF_sint_finite[OF assms] by blast
  have tir: "wi_out (RefractBSDF_SampleF r etai_m etat_m wo)
                   = Some (Vec (- x_c wo) (- y_c wo) (z_c wo))
           \<and> pdf_out (RefractBSDF_SampleF r etai_m etat_m wo) = Some 1
           \<and> (ret (RefractBSDF_SampleF r etai_m etat_m wo) = None \<longleftrightarrow> z_c wo = 0)"
    if ge: "1 \<le> s"
    unfolding RefractBSDF_SampleF_tir[OF s ge]
    by (simp add: vdiv_None_iff AbsCosTheta_def)
  have refr: "pdf_out (RefractBSDF_SampleF r etai_m etat_m wo) \<noteq> None" if lt: "s < 1"
  proof -
    obtain re where re: "RefractBSDF_re etai_m etat_m wo = Some re"
      using RefractBSDF_re_finite[OF assms s lt] by blast
    show ?thesis using RefractBSDF_SampleF_pdf[OF s lt, of r] re by simp
  qed
  have p: "pdf_out (RefractBSDF_SampleF r etai_m etat_m wo) \<noteq> None"
    using tir refr by (cases "s < 1") simp_all
  have t: "1 \<le> s \<longrightarrow>
                 wi_out (RefractBSDF_SampleF r etai_m etat_m wo)
                   = Some (Vec (- x_c wo) (- y_c wo) (z_c wo))
               \<and> pdf_out (RefractBSDF_SampleF r etai_m etat_m wo) = Some 1
               \<and> (ret (RefractBSDF_SampleF r etai_m etat_m wo) = None \<longleftrightarrow> z_c wo = 0)"
    using tir by (rule impI)
  have e: "\<exists>s. RefractBSDF_sint etai_m etat_m wo = Some s
            \<and> (1 \<le> s \<longrightarrow>
                 wi_out (RefractBSDF_SampleF r etai_m etat_m wo)
                   = Some (Vec (- x_c wo) (- y_c wo) (z_c wo))
               \<and> pdf_out (RefractBSDF_SampleF r etai_m etat_m wo) = Some 1
               \<and> (ret (RefractBSDF_SampleF r etai_m etat_m wo) = None \<longleftrightarrow> z_c wo = 0))"
    using s t by (intro exI conjI)
  have q: "1 \<le> etai_m \<and> 1 \<le> etat_m
            \<longrightarrow> pdf_out (RefractBSDF_SampleF r etai_m etat_m wo) \<noteq> None"
    using p by (rule impI)
  from f d m show ?thesis
    by (elim conjE, intro conjI) (assumption | rule e | rule q)+
qed

theorem SampleF_division_by_zero_witness:
  "(0 :: real) < 3 / 2 \<and> (0 :: real) < 1 \<and> (1 :: real) \<le> 3 / 2 \<and> (1 :: real) \<le> 1
   \<and> RefractBSDF_sint (3 / 2) 1 (Vec (4 / 5) 0 (- 3 / 5)) = Some (36 / 25)
   \<and> (1 :: real) \<le> 36 / 25
   \<and> ret (RefractBSDF_SampleF (Vec 1 1 1) (3 / 2) 1 (Vec (4 / 5) 0 (- 3 / 5))) \<noteq> None
   \<and> pdf_out (RefractBSDF_SampleF (Vec 1 1 1) (3 / 2) 1 (Vec (4 / 5) 0 (- 3 / 5))) \<noteq> None
   \<and> ret (ReflectBSDF_SampleF (Vec 1 1 1) (Vec (4 / 5) 0 (- 3 / 5))) \<noteq> None"
proof -
  let ?W = "Vec (4 / 5) 0 (- 3 / 5)"
  let ?R = "Vec 1 1 1"
  have p: "(0 :: real) < 3 / 2" "(0 :: real) < 1" by simp_all
  have s: "RefractBSDF_sint (3 / 2) 1 ?W = Some (36 / 25)"
    by (simp add: RefractBSDF_sint_def RefractBSDF_etas_def CosTheta_def AbsCosTheta_def fdiv_def)
  have z: "z_c ?W \<noteq> 0" by simp
  note t = SampleF_division_by_zero [OF p, where r = ?R and wo = ?W
             and wi = "Vec 0 0 1" and g = "\<lambda>n. 0"]
  have a: "ret (RefractBSDF_SampleF ?R (3 / 2) 1 ?W) \<noteq> None"
   and b: "pdf_out (RefractBSDF_SampleF ?R (3 / 2) 1 ?W) \<noteq> None"
   and c: "ret (ReflectBSDF_SampleF ?R ?W) \<noteq> None"
  proof -
    from t obtain s1 where
          m: "(ret (ReflectBSDF_SampleF ?R ?W) = None) = (z_c ?W = 0)"
      and s1: "RefractBSDF_sint (3 / 2) 1 ?W = Some s1"
      and i1: "1 \<le> s1 \<longrightarrow>
                 wi_out (RefractBSDF_SampleF ?R (3 / 2) 1 ?W)
                   = Some (Vec (- x_c ?W) (- y_c ?W) (z_c ?W))
               \<and> pdf_out (RefractBSDF_SampleF ?R (3 / 2) 1 ?W) = Some 1
               \<and> (ret (RefractBSDF_SampleF ?R (3 / 2) 1 ?W) = None) = (z_c ?W = 0)"
      and q: "(1 :: real) \<le> 3 / 2 \<and> (1 :: real) \<le> 1
                \<longrightarrow> pdf_out (RefractBSDF_SampleF ?R (3 / 2) 1 ?W) \<noteq> None"
      by (elim conjE exE)
    have "s1 = 36 / 25" using s s1 by simp
    then have "(ret (RefractBSDF_SampleF ?R (3 / 2) 1 ?W) = None) = (z_c ?W = 0)"
      using i1 by simp
    then show "ret (RefractBSDF_SampleF ?R (3 / 2) 1 ?W) \<noteq> None" using z by simp
    show "pdf_out (RefractBSDF_SampleF ?R (3 / 2) 1 ?W) \<noteq> None" using q by simp
    show "ret (ReflectBSDF_SampleF ?R ?W) \<noteq> None" using m z by simp
  qed
  show ?thesis using p s a b c by simp
qed

text \<open>
  C3, as stated, fails at \<open>wo = (1, 0, 0)\<close>: \<open>ReflectBSDF::SampleF\<close> divides by
  \<open>CosTheta(wi) = 0\<close>, and \<open>RefractBSDF::SampleF\<close> with the indices 1 and 1.5 takes the
  reflection branch and divides by \<open>AbsCosTheta(wi) = 0\<close>.
\<close>

theorem SampleF_division_by_zero_counterexample:
  "ret (ReflectBSDF_SampleF (Vec 1 1 1) (Vec 1 0 0)) = None
   \<and> ret (RefractBSDF_SampleF (Vec 1 1 1) 1 (3 / 2) (Vec 1 0 0)) = None"
  by (simp add: ReflectBSDF_SampleF_def RefractBSDF_SampleF_def CosTheta_def AbsCosTheta_def
                fdiv_def vdiv_def)

section \<open>The camera\<close>

text \<open>
  C10.  For a positive resolution \<open>RasterToWorld\<close> yields a direction with a negative
  \<open>z\<close>, and \<open>WorldToRaster\<close> maps that direction to \<open>(-1, -1)\<close>, for every raster
  point.
\<close>

theorem raster_round_trip:
  assumes "0 < x_i (resolution cam)" "0 < y_i (resolution cam)"
  shows "\<exists>v. RasterToWorld cam p = Some v \<and> z_c v < 0
            \<and> WorldToRaster cam v = Some \<lparr>x_i = - 1, y_i = - 1\<rparr>"
proof -
  define a where "a = x_p p / real_of_int (x_i (resolution cam))"
  define b where "b = y_p p / real_of_int (y_i (resolution cam))"
  have r: "RasterToWorld cam p = Normalize (Vec (a - 0.5) (0.5 - b) (- 1))"
    using assms by (simp add: RasterToWorld_def fdiv_def a_def b_def)
  obtain w where w: "Normalize (Vec (a - 0.5) (0.5 - b) (- 1)) = Some w"
     "z_c w = z_c (Vec (a - 0.5) (0.5 - b) (- 1)) / Length (Vec (a - 0.5) (0.5 - b) (- 1))"
     "0 < Length (Vec (a - 0.5) (0.5 - b) (- 1))"
    using Normalize_z[of "Vec (a - 0.5) (0.5 - b) (- 1)"] by auto
  have "z_c w < 0" using w(2,3) by simp
  then show ?thesis using r w(1) by (simp add: WorldToRaster_def)
qed

theorem raster_round_trip_witness:
  "(0::int) < 512 \<and> RasterToWorld \<lparr>resolution = \<lparr>x_i = 512, y_i = 512\<rparr>\<rparr> \<lparr>x_p = 256, y_p = 256\<rparr> = Some (Vec 0 0 (- 1))
   \<and> WorldToRaster \<lparr>resolution = \<lparr>x_i = 512, y_i = 512\<rparr>\<rparr> (Vec 0 0 (- 1)) = Some \<lparr>x_i = - 1, y_i = - 1\<rparr>"
proof -
  have r: "RasterToWorld \<lparr>resolution = \<lparr>x_i = 512, y_i = 512\<rparr>\<rparr> \<lparr>x_p = 256, y_p = 256\<rparr> = Some (Vec 0 0 (- 1))"
    by (simp add: RasterToWorld_def fdiv_def Normalize_def Length_def vdiv_def)
  show ?thesis
    using raster_round_trip [of "\<lparr>resolution = \<lparr>x_i = 512, y_i = 512\<rparr>\<rparr>" "\<lparr>x_p = 256, y_p = 256\<rparr>"] r
    by simp
qed

end
